theory Spec2Isabelle
  imports Complex_Main "HOL-Library.Sublist"
begin

section \<open>Strings as the plugin uses them\<close>

text \<open>
  Texts are byte strings. \<open>toLowerCase\<close> is modelled on the ASCII letters (other bytes are
  left alone), \<open>includes\<close> is substring search, \<open>trim\<close> strips white space at both ends.
  White space is the ASCII white space (tab, line feed, vertical tab, form feed, carriage
  return, space); the white space characters outside ASCII are not modelled.
\<close>

text \<open>
  The capital letters are the codes \<open>0x41\<close> to \<open>0x5A\<close>: bits 7 to 5 are \<open>010\<close> and the low
  five bits hold a number from 1 to 26. A capital letter and its small letter differ in
  bit 5 (\<open>0x20\<close>).
\<close>

definition is_upper :: "char \<Rightarrow> bool" where
  "is_upper c =
     (\<not> digit7 c \<and> digit6 c \<and> \<not> digit5 c \<and>
      (digit0 c \<or> digit1 c \<or> digit2 c \<or> digit3 c \<or> digit4 c) \<and>
      \<not> (digit4 c \<and> digit3 c \<and> (digit2 c \<or> (digit1 c \<and> digit0 c))))"

definition lower_char :: "char \<Rightarrow> char" where
  "lower_char c =
     (if is_upper c
      then Char (digit0 c) (digit1 c) (digit2 c) (digit3 c) (digit4 c) True (digit6 c) (digit7 c)
      else c)"

definition toLowerCase :: "string \<Rightarrow> string" where
  "toLowerCase s = map lower_char s"

fun str_includes :: "string \<Rightarrow> string \<Rightarrow> bool" where
  "str_includes [] p = (p = [])"
| "str_includes (c # cs) p = (prefix p (c # cs) \<or> str_includes cs p)"

definition is_space :: "char \<Rightarrow> bool" where
  "is_space c = (c \<in> set [CHR 0x09, CHR 0x0A, CHR 0x0B, CHR 0x0C, CHR 0x0D, CHR '' ''])"

definition is_digit :: "char \<Rightarrow> bool" where
  "is_digit c = (c \<in> set ''0123456789'')"

definition trim :: "string \<Rightarrow> string" where
  "trim s = rev (dropWhile is_space (rev (dropWhile is_space s)))"

section \<open>Regular expressions with the backtracking order of the engine\<close>

text \<open>
  The patterns of the plugin use literals (all under the \<open>i\<close> flag), \<open>\\d\<close>, \<open>\\s\<close>,
  sequence, ordered alternation, the greedy quantifiers \<open>*\<close>, \<open>+\<close>, \<open>?\<close> and at most one
  capture group. \<open>rmatch r (cap, s)\<close> lists, in the order in which a backtracking matcher
  tries them, the ways \<open>r\<close> can match a prefix of \<open>s\<close>: each with the capture so far and
  the text left over.
\<close>

datatype rx =
    Lit string
  | Digit
  | Space
  | Seq rx rx
  | Alt rx rx
  | Opt rx
  | Star rx
  | Grp rx

type_synonym mstate = "string option \<times> string"

fun lit_match :: "string \<Rightarrow> string \<Rightarrow> string option" where
  "lit_match [] s = Some s"
| "lit_match (c # cs) [] = None"
| "lit_match (c # cs) (d # ds) =
     (if lower_char c = lower_char d then lit_match cs ds else None)"

fun rmatch :: "rx \<Rightarrow> mstate \<Rightarrow> mstate list" where
  "rmatch (Lit l) (cap, s) =
     (case lit_match l s of None \<Rightarrow> [] | Some rest \<Rightarrow> [(cap, rest)])"
| "rmatch Digit (cap, s) =
     (case s of [] \<Rightarrow> [] | c # cs \<Rightarrow> if is_digit c then [(cap, cs)] else [])"
| "rmatch Space (cap, s) =
     (case s of [] \<Rightarrow> [] | c # cs \<Rightarrow> if is_space c then [(cap, cs)] else [])"
| "rmatch (Seq a b) st = concat (map (rmatch b) (rmatch a st))"
| "rmatch (Alt a b) st = rmatch a st @ rmatch b st"
| "rmatch (Opt a) st = rmatch a st @ [st]"
| "rmatch (Star a) (cap, s) =
     concat (map (\<lambda>st'. if length (snd st') < length s then rmatch (Star a) st' else [])
                 (rmatch a (cap, s))) @ [(cap, s)]"
| "rmatch (Grp a) (cap, s) =
     map (\<lambda>st'. (Some (take (length s - length (snd st')) s), snd st')) (rmatch a (cap, s))"

definition Plus :: "rx \<Rightarrow> rx" where
  "Plus a = Seq a (Star a)"

fun alts :: "string list \<Rightarrow> rx" where
  "alts [] = Lit []"
| "alts [l] = Lit l"
| "alts (l # ls) = Alt (Lit l) (alts ls)"

fun seqs :: "rx list \<Rightarrow> rx" where
  "seqs [] = Lit []"
| "seqs [r] = r"
| "seqs (r # rs) = Seq r (seqs rs)"

text \<open>The match object: the whole matched text (index 0) and the capture group (index 1).\<close>

definition exec_at :: "rx \<Rightarrow> string \<Rightarrow> (string \<times> string option) option" where
  "exec_at r s =
     (case rmatch r (None, s) of
        [] \<Rightarrow> None
      | (cap, rest) # _ \<Rightarrow> Some (take (length s - length rest) s, cap))"

fun rx_match :: "rx \<Rightarrow> string \<Rightarrow> (string \<times> string option) option" where
  "rx_match r [] = exec_at r []"
| "rx_match r (c # cs) =
     (case exec_at r (c # cs) of Some m \<Rightarrow> Some m | None \<Rightarrow> rx_match r cs)"

definition rx_test :: "rx \<Rightarrow> string \<Rightarrow> bool" where
  "rx_test r s = (rx_match r s \<noteq> None)"

section \<open>Search criteria and their extraction from text\<close>

text \<open>
  The criteria object has five optional fields. \<open>bedrooms\<close> is typed
  \<open>string | number\<close> where it is consumed; the two price bounds are numbers.
\<close>

datatype bedrooms_val = BStr string | BNum int

record criteria =
  area :: "string option"
  propertyType :: "string option"
  bedrooms :: "bedrooms_val option"
  maxPrice :: "int option"
  minPrice :: "int option"

definition empty_criteria :: criteria where
  "empty_criteria =
     \<lparr>area = None, propertyType = None, bedrooms = None, maxPrice = None, minPrice = None\<rparr>"

definition areaPatterns :: "string list" where
  "areaPatterns =
     [''Downtown'', ''Dubai Marina'', ''JBR'', ''Palm Jumeirah'', ''Business Bay'',
      ''JVC'', ''JVT'', ''Jumeirah Village'', ''DIFC'', ''International City'',
      ''Sports City'', ''Motor City'', ''Arabian Ranches'', ''Mirdif'', ''Barsha'',
      ''Al Barsha'', ''Dubai Hills'', ''MBR City'', ''Dubai South'', ''Dubailand'',
      ''Dubai Creek'', ''Zabeel'', ''Deira'', ''Bur Dubai'', ''Jumeirah'', ''Umm Suqeim'',
      ''Discovery Gardens'', ''Gardens'', ''Jebel Ali'', ''Dubai Production City'', ''IMPZ'',
      ''Dubai Silicon Oasis'', ''DSO'', ''Al Furjan'', ''The Greens'']"

definition extract_area :: "string \<Rightarrow> string option" where
  "extract_area text =
     find (\<lambda>a. str_includes (toLowerCase text) (toLowerCase a)) areaPatterns"

definition extract_propertyType :: "string \<Rightarrow> string option" where
  "extract_propertyType text =
     (if str_includes (toLowerCase text) ''apartment'' \<or> str_includes (toLowerCase text) ''flat''
      then Some ''apartment''
      else if str_includes (toLowerCase text) ''villa'' \<or> str_includes (toLowerCase text) ''house''
      then Some ''villa''
      else if str_includes (toLowerCase text) ''townhouse'' then Some ''townhouse''
      else if str_includes (toLowerCase text) ''penthouse'' then Some ''penthouse''
      else None)"

text \<open>\<^verbatim>\<open>/(\d+)\s*(?:bed|beds?|bedroom|bedrooms?|br|bd|bdr|bhk)/i\<close>\<close>

definition bedroomPattern :: rx where
  "bedroomPattern =
     seqs [Grp (Plus Digit), Star Space,
           Alt (Lit ''bed'')
          (Alt (Seq (Lit ''bed'') (Opt (Lit ''s'')))
          (Alt (Lit ''bedroom'')
          (Alt (Seq (Lit ''bedroom'') (Opt (Lit ''s'')))
          (alts [''br'', ''bd'', ''bdr'', ''bhk'']))))]"

definition extract_bedrooms :: "string \<Rightarrow> bedrooms_val option" where
  "extract_bedrooms text =
     (case rx_match bedroomPattern text of
        Some (m0, Some m1) \<Rightarrow> Some (BStr m1)
      | _ \<Rightarrow> if str_includes (toLowerCase text) ''studio'' then Some (BStr ''studio'') else None)"

text \<open>
  The number of a price phrase: \<^verbatim>\<open>(\d+(?:,\d+)*(?:\.\d+)?)\<close>, and the unit after it:
  \<^verbatim>\<open>\s*(?:AED|dhs|dirhams|k|million|m)?\<close>.
\<close>

definition priceNumber :: rx where
  "priceNumber =
     Grp (seqs [Plus Digit, Star (Seq (Lit '','') (Plus Digit)),
                Opt (Seq (Lit ''.'') (Plus Digit))])"

definition priceUnit :: rx where
  "priceUnit = Opt (alts [''AED'', ''dhs'', ''dirhams'', ''k'', ''million'', ''m''])"

definition maxPricePattern :: rx where
  "maxPricePattern =
     seqs [alts [''under'', ''below'', ''less than'', ''max'', ''maximum'', ''up to''],
           Star Space, Opt (Lit ''AED''), Star Space, priceNumber, Star Space, priceUnit]"

definition minPricePattern :: rx where
  "minPricePattern =
     seqs [alts [''above'', ''over'', ''more than'', ''min'', ''minimum'', ''at least''],
           Star Space, Opt (Lit ''AED''), Star Space, priceNumber, Star Space, priceUnit]"

text \<open>
  \<open>parseFloat\<close> on what group 1 of a price pattern can hold once the commas are gone:
  digits, then optionally a point and digits. Numbers are rationals here; the source
  computes with doubles.
\<close>

definition digit_of :: "char \<Rightarrow> nat" where
  "digit_of c = length (takeWhile (\<lambda>d. d \<noteq> c) ''0123456789'')"

definition digits_val :: "string \<Rightarrow> nat" where
  "digits_val s = foldl (\<lambda>n c. 10 * n + digit_of c) 0 s"

definition parseFloat :: "string \<Rightarrow> rat" where
  "parseFloat s =
     (let ip = takeWhile is_digit s;
          fp = (case dropWhile is_digit s of
                  [] \<Rightarrow> []
                | c # cs \<Rightarrow> if c = CHR ''.'' then takeWhile is_digit cs else [])
      in of_nat (digits_val ip) + of_nat (digits_val fp) / 10 ^ length fp)"

definition math_round :: "rat \<Rightarrow> int" where
  "math_round x = \<lfloor>x + 1 / 2\<rfloor>"

definition price_of_match :: "string \<Rightarrow> string \<Rightarrow> int" where
  "price_of_match m0 m1 =
     (let price = filter (\<lambda>c. c \<noteq> CHR '','') m1;
          v = parseFloat price;
          v' = (if str_includes (toLowerCase m0) ''million'' \<or> str_includes (toLowerCase m0) ''m''
                then v * 1000000
                else if str_includes (toLowerCase m0) ''k'' then v * 1000
                else v)
      in math_round v')"

definition extract_price :: "rx \<Rightarrow> string \<Rightarrow> int option" where
  "extract_price pat text =
     (case rx_match pat text of
        Some (m0, Some m1) \<Rightarrow> Some (price_of_match m0 m1)
      | _ \<Rightarrow> None)"

definition extractSearchCriteria :: "string \<Rightarrow> criteria" where
  "extractSearchCriteria text =
     \<lparr>area = extract_area text,
      propertyType = extract_propertyType text,
      bedrooms = extract_bedrooms text,
      maxPrice = extract_price maxPricePattern text,
      minPrice = extract_price minPricePattern text\<rparr>"

section \<open>The listing search request\<close>

text \<open>
  \<open>fetchAds\<close> builds the request body key by key, in the order \<open>area\<close>, \<open>bedrooms\<close>,
  \<open>maxPrice\<close>; the body is an object, modelled as its list of entries. A field of the
  criteria is used when it is truthy: a non-empty string, a non-zero number.
\<close>

datatype pval = PStr string | PNum int

type_synonym payload = "(string \<times> pval) list"

text \<open>\<open>parseInt(s, 10)\<close>: leading white space, an optional sign, then the longest run of digits;
  \<open>None\<close> is \<open>NaN\<close>. The value is the exact integer (the source's numbers are doubles, which
  agree with it up to \<open>2^53\<close>).\<close>

definition parseInt :: "string \<Rightarrow> int option" where
  "parseInt s =
     (let t = dropWhile is_space s;
          neg = (case t of [] \<Rightarrow> False | c # cs \<Rightarrow> c = CHR ''-'');
          u = (case t of [] \<Rightarrow> [] | c # cs \<Rightarrow> if c = CHR ''-'' \<or> c = CHR ''+'' then cs else t);
          ds = takeWhile is_digit u
      in if ds = [] then None
         else Some (if neg then - int (digits_val ds) else int (digits_val ds)))"

definition payload_area :: "criteria \<Rightarrow> payload" where
  "payload_area c =
     (case area c of
        None \<Rightarrow> []
      | Some a \<Rightarrow> if a \<noteq> [] then [(''area'', PStr a)] else [])"

definition payload_bedrooms :: "criteria \<Rightarrow> payload" where
  "payload_bedrooms c =
     (case bedrooms c of
        None \<Rightarrow> []
      | Some (BStr s) \<Rightarrow>
          if s = [] then []
          else if toLowerCase s = ''studio'' then [(''bedrooms'', PNum 0)]
          else (case parseInt s of
                  Some n \<Rightarrow> [(''bedrooms'', PNum n)]
                | None \<Rightarrow> [])
      | Some (BNum n) \<Rightarrow> if n \<noteq> 0 then [(''bedrooms'', PNum n)] else [])"

definition payload_maxPrice :: "criteria \<Rightarrow> payload" where
  "payload_maxPrice c =
     (case maxPrice c of
        None \<Rightarrow> []
      | Some p \<Rightarrow> if p \<noteq> 0 then [(''maxPrice'', PNum p)] else [])"

definition build_payload :: "criteria \<Rightarrow> payload" where
  "build_payload c = payload_area c @ payload_bedrooms c @ payload_maxPrice c"

section \<open>The listing search response\<close>

text \<open>
  The provider answers with a status and a body. The entries of a listings array are
  objects whose \<open>title\<close>, \<open>price\<close> and \<open>link\<close>, where present, are strings, as the source
  assumes of the provider (\<open>[{ title: string, price: string, link: string }, ...]\<close>).
  An object is the list of its entries, one for each key.
\<close>

record raw_listing =
  raw_title :: "string option"
  raw_price :: "string option"
  raw_link :: "string option"

record ad =
  title :: string
  price :: string
  link :: string

datatype json =
    JNull
  | JBool bool
  | JNum int
  | JStr string
  | JArr "raw_listing list"
  | JObj "(string \<times> json) list"

datatype http_result =
    NetworkError
  | Response nat "json option"

datatype error =
    FetchFailed
  | SearchFailed nat
  | InvalidJson
  | TypeError
  | WebhookError nat

definition res_ok :: "nat \<Rightarrow> bool" where
  "res_ok status = (200 \<le> status \<and> status \<le> 299)"

text \<open>\<open>v || d\<close> on an optional string: the default replaces an absent and an empty value.\<close>

definition or_default :: "string option \<Rightarrow> string \<Rightarrow> string" where
  "or_default v d = (case v of None \<Rightarrow> d | Some s \<Rightarrow> if s = [] then d else s)"

definition to_ad :: "raw_listing \<Rightarrow> ad" where
  "to_ad item =
     \<lparr>title = or_default (raw_title item) ''No Title'',
      price = or_default (raw_price item) ''Price not specified'',
      link = or_default (raw_link item) ''#''\<rparr>"

definition valid_link :: "ad \<Rightarrow> bool" where
  "valid_link a = (link a \<noteq> [] \<and> link a \<noteq> ''#'')"

definition to_ads :: "raw_listing list \<Rightarrow> ad list" where
  "to_ads rawListings = take 5 (filter valid_link (map to_ad rawListings))"

text \<open>
  The three shapes of a response, tried in the source's order: the array itself, then
  \<open>listings\<close>, then \<open>data.listings\<close>. Reading a property of \<open>null\<close> throws; a property of
  another value that is no object is \<open>undefined\<close>.
\<close>

definition find_listings :: "json \<Rightarrow> error + raw_listing list option" where
  "find_listings responseJson =
     (case responseJson of
        JArr xs \<Rightarrow> Inr (Some xs)
      | JNull \<Rightarrow> Inl TypeError
      | JObj kv \<Rightarrow>
          (case map_of kv ''listings'' of
             Some (JArr xs) \<Rightarrow> Inr (Some xs)
           | _ \<Rightarrow>
             (case map_of kv ''data'' of
                Some (JObj kv') \<Rightarrow>
                  (case map_of kv' ''listings'' of
                     Some (JArr xs) \<Rightarrow> Inr (Some xs)
                   | _ \<Rightarrow> Inr None)
              | _ \<Rightarrow> Inr None))
      | _ \<Rightarrow> Inr None)"

text \<open>
  \<open>fetchAds\<close> returns the listings or throws, and sends at most one request; the second
  component is the list of request bodies sent.
\<close>

definition fetchAds :: "(payload \<Rightarrow> http_result) \<Rightarrow> criteria \<Rightarrow> (error + ad list) \<times> payload list" where
  "fetchAds webhook searchCriteria =
     (let payload = build_payload searchCriteria in
      if length payload = 0 then (Inr [], [])
      else
        (case webhook payload of
           NetworkError \<Rightarrow> (Inl FetchFailed, [payload])
         | Response status body \<Rightarrow>
             if \<not> res_ok status then (Inl (SearchFailed status), [payload])
             else
               (case body of
                  None \<Rightarrow> (Inl InvalidJson, [payload])
                | Some responseJson \<Rightarrow>
                    (case find_listings responseJson of
                       Inl e \<Rightarrow> (Inl e, [payload])
                     | Inr None \<Rightarrow> (Inr [], [payload])
                     | Inr (Some rawListings) \<Rightarrow> (Inr (to_ads rawListings), [payload])))))"

section \<open>Saved preferences and the search log\<close>

text \<open>
  The two tables the plugin writes. A column that is \<open>NULL\<close> is \<open>None\<close>. The runtime may
  have no SQL adapter at all (\<open>SqlAbsent\<close>), or one whose queries all throw (\<open>SqlFailing\<close>);
  \<open>now\<close> is \<open>CURRENT_TIMESTAMP\<close>, and the identifier of a log entry is made by the runtime
  from the user and the time. The columns \<open>yield_floor\<close> and \<open>furnished\<close>, which the plugin
  never writes, are left out.
\<close>

record pref_row =
  user_id :: string
  col_area :: "string option"
  property_type :: "string option"
  col_bedrooms :: "string option"
  max_price :: "int option"
  min_price :: "int option"
  last_updated :: nat

record search_log =
  search_id :: string
  log_user_id :: string
  timestamp :: nat
  criteria_json :: criteria
  listings_returned :: nat

record db =
  preferences :: "pref_row list"
  search_logs :: "search_log list"

datatype sql_status = SqlAbsent | SqlFailing | SqlWorking

record runtime =
  sql :: sql_status
  now :: nat
  createUniqueUuid :: "string \<Rightarrow> nat \<Rightarrow> string"
  webhook :: "payload \<Rightarrow> http_result"

fun string_of_nat :: "nat \<Rightarrow> string" where
  "string_of_nat n =
     (if n < 10 then [''0123456789'' ! n]
      else string_of_nat (n div 10) @ [''0123456789'' ! (n mod 10)])"

definition bedrooms_toString :: "bedrooms_val \<Rightarrow> string" where
  "bedrooms_toString b =
     (case b of
        BStr s \<Rightarrow> s
      | BNum n \<Rightarrow> if n < 0 then CHR ''-'' # string_of_nat (nat (- n)) else string_of_nat (nat n))"

text \<open>The bound values of the two statements: \<open>x || null\<close> for each field.\<close>

definition str_or_null :: "string option \<Rightarrow> string option" where
  "str_or_null v = (case v of None \<Rightarrow> None | Some s \<Rightarrow> if s = [] then None else Some s)"

definition num_or_null :: "int option \<Rightarrow> int option" where
  "num_or_null v = (case v of None \<Rightarrow> None | Some n \<Rightarrow> if n = 0 then None else Some n)"

definition COALESCE :: "'a option \<Rightarrow> 'a option \<Rightarrow> 'a option" where
  "COALESCE v old = (case v of None \<Rightarrow> old | Some x \<Rightarrow> Some x)"

definition update_row :: "nat \<Rightarrow> criteria \<Rightarrow> pref_row \<Rightarrow> pref_row" where
  "update_row t p r =
     r\<lparr>col_area := COALESCE (str_or_null (area p)) (col_area r),
       property_type := COALESCE (str_or_null (propertyType p)) (property_type r),
       col_bedrooms := COALESCE (str_or_null (map_option bedrooms_toString (bedrooms p))) (col_bedrooms r),
       max_price := COALESCE (num_or_null (maxPrice p)) (max_price r),
       min_price := COALESCE (num_or_null (minPrice p)) (min_price r),
       last_updated := t\<rparr>"

definition insert_row :: "nat \<Rightarrow> string \<Rightarrow> criteria \<Rightarrow> pref_row" where
  "insert_row t userId p =
     \<lparr>user_id = userId,
      col_area = str_or_null (area p),
      property_type = str_or_null (propertyType p),
      col_bedrooms = str_or_null (map_option bedrooms_toString (bedrooms p)),
      max_price = num_or_null (maxPrice p),
      min_price = num_or_null (minPrice p),
      last_updated = t\<rparr>"

definition saveSearchPreferences :: "runtime \<Rightarrow> string \<Rightarrow> criteria \<Rightarrow> db \<Rightarrow> db" where
  "saveSearchPreferences rt userId p d =
     (if userId = [] then d
      else
        (case sql rt of
           SqlAbsent \<Rightarrow> d
         | SqlFailing \<Rightarrow> d
         | SqlWorking \<Rightarrow>
             (let existingPrefs = filter (\<lambda>r. user_id r = userId) (preferences d);
                  prefs' =
                    (if length existingPrefs > 0
                     then map (\<lambda>r. if user_id r = userId then update_row (now rt) p r else r)
                              (preferences d)
                     else preferences d @ [insert_row (now rt) userId p]);
                  entry =
                    \<lparr>search_id = createUniqueUuid rt userId (now rt),
                     log_user_id = userId,
                     timestamp = now rt,
                     criteria_json = p,
                     listings_returned = 0\<rparr>
              in d\<lparr>preferences := prefs', search_logs := search_logs d @ [entry]\<rparr>)))"

text \<open>
  \<open>UPDATE search_logs SET listings_returned = ? WHERE user_id = ? ORDER BY timestamp DESC
  LIMIT 1\<close>: the most recent row of the user; among rows of one timestamp the one inserted
  last is taken.
\<close>

fun update_first :: "('a \<Rightarrow> bool) \<Rightarrow> ('a \<Rightarrow> 'a) \<Rightarrow> 'a list \<Rightarrow> 'a list" where
  "update_first P f [] = []"
| "update_first P f (x # xs) = (if P x then f x # xs else x # update_first P f xs)"

definition update_listings_returned :: "runtime \<Rightarrow> string \<Rightarrow> nat \<Rightarrow> db \<Rightarrow> db" where
  "update_listings_returned rt userId n d =
     (case sql rt of
        SqlWorking \<Rightarrow>
          (let ts = map timestamp (filter (\<lambda>l. log_user_id l = userId) (search_logs d)) in
           if ts = [] then d
           else d\<lparr>search_logs :=
                    rev (update_first (\<lambda>l. log_user_id l = userId \<and> timestamp l = foldr max ts 0)
                                      (\<lambda>l. l\<lparr>listings_returned := n\<rparr>)
                                      (rev (search_logs d)))\<rparr>)
      | _ \<Rightarrow> d)"

text \<open>
  \<open>SELECT ... FROM preferences WHERE user_id = ? ORDER BY last_updated DESC LIMIT 1\<close>, and
  the criteria the handler builds from the row.
\<close>

definition latest_preference :: "string \<Rightarrow> pref_row list \<Rightarrow> pref_row option" where
  "latest_preference userId rows =
     (case filter (\<lambda>r. user_id r = userId) rows of
        [] \<Rightarrow> None
      | r # rs \<Rightarrow> Some (foldl (\<lambda>best x. if last_updated best < last_updated x then x else best) r rs))"

definition criteriaFromDb :: "pref_row \<Rightarrow> criteria" where
  "criteriaFromDb pref =
     \<lparr>area = col_area pref,
      propertyType = property_type pref,
      bedrooms = map_option BStr (col_bedrooms pref),
      maxPrice = num_or_null (max_price pref),
      minPrice = num_or_null (min_price pref)\<rparr>"

section \<open>The SEARCH_LISTINGS handler\<close>

text \<open>
  The conversation state the handler reads and writes, and its replies, one constructor for
  each message text of the source (with the data the text is built from).
\<close>

record state_values =
  awaitingPropertyCriteria :: bool
  showingListingResults :: bool
  lastSearchCriteria :: "criteria option"

definition initial_state :: state_values where
  "initial_state =
     \<lparr>awaitingPropertyCriteria = False, showingListingResults = False,
      lastSearchCriteria = None\<rparr>"

datatype reply =
    MoreOptions "ad list"
  | NoMoreListings
  | MoreListingsIssue
  | RefinePrompt
  | PreferencesSaved criteria
  | Results "ad list"
  | NoListingsFound
  | SearchIssue
  | SavedResults "ad list" bool
  | NoSavedListingsFound
  | NoSavedPreferences
  | SavedPreferencesIssue
  | CriteriaPrompt

text \<open>
  \<^verbatim>\<open>/(?:show|send|get|give)\s+(?:more|next)/i\<close>,
  \<^verbatim>\<open>/(?:narrow|filter|tighten|refine|specific|less)/i\<close>,
  \<^verbatim>\<open>/(?:save|store|remember|keep)\s+(?:this|these|search|criteria)/i\<close>,
  \<^verbatim>\<open>/(?:show|get|what|my)\s+(?:previous|saved|last|recent)?\s*(?:search|criteria|preferences)/i\<close>,
  \<^verbatim>\<open>/(?:new|latest|recent|updated)\s+(?:listings|properties|options)/i\<close>
\<close>

definition showMorePattern :: rx where
  "showMorePattern =
     seqs [alts [''show'', ''send'', ''get'', ''give''], Plus Space, alts [''more'', ''next'']]"

definition narrowPattern :: rx where
  "narrowPattern = alts [''narrow'', ''filter'', ''tighten'', ''refine'', ''specific'', ''less'']"

definition savePattern :: rx where
  "savePattern =
     seqs [alts [''save'', ''store'', ''remember'', ''keep''], Plus Space,
           alts [''this'', ''these'', ''search'', ''criteria'']]"

definition savedSearchPattern :: rx where
  "savedSearchPattern =
     seqs [alts [''show'', ''get'', ''what'', ''my''], Plus Space,
           Opt (alts [''previous'', ''saved'', ''last'', ''recent'']), Star Space,
           alts [''search'', ''criteria'', ''preferences'']]"

definition newListingsPattern :: rx where
  "newListingsPattern =
     seqs [alts [''new'', ''latest'', ''recent'', ''updated''], Plus Space,
           alts [''listings'', ''properties'', ''options'']]"

definition last_or_empty :: "state_values \<Rightarrow> criteria" where
  "last_or_empty st = (case lastSearchCriteria st of None \<Rightarrow> empty_criteria | Some c \<Rightarrow> c)"

definition truthy_str :: "string option \<Rightarrow> bool" where
  "truthy_str v = (case v of None \<Rightarrow> False | Some s \<Rightarrow> s \<noteq> [])"

definition truthy_num :: "int option \<Rightarrow> bool" where
  "truthy_num v = (case v of None \<Rightarrow> False | Some n \<Rightarrow> n \<noteq> 0)"

definition truthy_bedrooms :: "bedrooms_val option \<Rightarrow> bool" where
  "truthy_bedrooms v =
     (case v of None \<Rightarrow> False | Some (BStr s) \<Rightarrow> s \<noteq> [] | Some (BNum n) \<Rightarrow> n \<noteq> 0)"

definition enough_detail :: "criteria \<Rightarrow> bool" where
  "enough_detail c =
     ((truthy_str (area c) \<or> truthy_str (propertyType c) \<or> truthy_bedrooms (bedrooms c)) \<and>
      (truthy_num (maxPrice c) \<or> truthy_num (minPrice c) \<or> truthy_str (area c)))"

text \<open>
  The body of the \<open>try\<close> blocks of the two searching branches up to the state change:
  fetch, save the preferences, set the count of the log entry. Only the fetch can throw:
  \<open>saveSearchPreferences\<close> catches its own failures and the count update has a \<open>try\<close> of
  its own.
\<close>

definition fetch_and_save ::
  "runtime \<Rightarrow> string \<Rightarrow> criteria \<Rightarrow> db \<Rightarrow> (error + ad list \<times> db) \<times> payload list" where
  "fetch_and_save rt userId c d =
     (case fetchAds (webhook rt) c of
        (Inl e, reqs) \<Rightarrow> (Inl e, reqs)
      | (Inr ads, reqs) \<Rightarrow>
          (Inr (ads, update_listings_returned rt userId (length ads)
                       (saveSearchPreferences rt userId c d)), reqs))"

definition results_reply :: "ad list \<Rightarrow> reply" where
  "results_reply ads = (if length ads \<noteq> 0 then Results ads else NoListingsFound)"

text \<open>
  One turn: the runtime, the message text and the user id, the state and the tables before;
  the state and the tables after, the reply handed to the callback, and the requests sent
  to the listing provider. The callback is taken not to throw.
\<close>

definition handler ::
  "runtime \<Rightarrow> string \<Rightarrow> string \<Rightarrow> state_values \<Rightarrow> db
     \<Rightarrow> state_values \<times> db \<times> reply \<times> payload list" where
  "handler rt message_text userId st d =
     (let text = trim message_text in
      if showingListingResults st \<and> rx_test showMorePattern text then
        (case fetchAds (webhook rt) (last_or_empty st) of
           (Inr additionalAds, reqs) \<Rightarrow>
             (st, d, if length additionalAds \<noteq> 0 then MoreOptions additionalAds else NoMoreListings,
              reqs)
         | (Inl e, reqs) \<Rightarrow> (st, d, MoreListingsIssue, reqs))
      else if showingListingResults st \<and> rx_test narrowPattern text then
        (st\<lparr>showingListingResults := False, awaitingPropertyCriteria := True\<rparr>, d,
         RefinePrompt, [])
      else if showingListingResults st \<and> rx_test savePattern text then
        (st, saveSearchPreferences rt userId (last_or_empty st) d,
         PreferencesSaved (last_or_empty st), [])
      else if awaitingPropertyCriteria st then
        (let currentCriteria = extractSearchCriteria text;
             st1 = st\<lparr>awaitingPropertyCriteria := False,
                      lastSearchCriteria := Some currentCriteria\<rparr>
         in case fetch_and_save rt userId currentCriteria d of
              (Inr (ads, d'), reqs) \<Rightarrow>
                (st1\<lparr>showingListingResults := True\<rparr>, d', results_reply ads, reqs)
            | (Inl e, reqs) \<Rightarrow> (st1, d, SearchIssue, reqs))
      else if rx_test savedSearchPattern text \<or> rx_test newListingsPattern text then
        (case sql rt of
           SqlFailing \<Rightarrow> (st\<lparr>awaitingPropertyCriteria := True\<rparr>, d, SavedPreferencesIssue, [])
         | _ \<Rightarrow>
           (case (if sql rt = SqlWorking then latest_preference userId (preferences d) else None) of
              Some pref \<Rightarrow>
                (let st1 = st\<lparr>lastSearchCriteria := Some (criteriaFromDb pref)\<rparr> in
                 case fetchAds (webhook rt) (criteriaFromDb pref) of
                   (Inr ads, reqs) \<Rightarrow>
                     (st1\<lparr>showingListingResults := True\<rparr>, d,
                      if length ads \<noteq> 0 then SavedResults ads (rx_test newListingsPattern text)
                      else NoSavedListingsFound,
                      reqs)
                 | (Inl e, reqs) \<Rightarrow>
                     (st1\<lparr>awaitingPropertyCriteria := True\<rparr>, d, SavedPreferencesIssue, reqs))
            | None \<Rightarrow> (st\<lparr>awaitingPropertyCriteria := True\<rparr>, d, NoSavedPreferences, [])))
      else
        (let initialCriteria = extractSearchCriteria text in
         if enough_detail initialCriteria then
           (let st1 = st\<lparr>lastSearchCriteria := Some initialCriteria\<rparr> in
            case fetch_and_save rt userId initialCriteria d of
              (Inr (ads, d'), reqs) \<Rightarrow>
                (st1\<lparr>showingListingResults := True\<rparr>, d', results_reply ads, reqs)
            | (Inl e, reqs) \<Rightarrow>
                (st1\<lparr>awaitingPropertyCriteria := True\<rparr>, d, CriteriaPrompt, reqs))
         else (st\<lparr>awaitingPropertyCriteria := True\<rparr>, d, CriteriaPrompt, [])))"

text \<open>A conversation: the handler run on one message after the other.\<close>

fun run_turns ::
  "(runtime \<times> string \<times> string) list \<Rightarrow> state_values \<times> db \<Rightarrow> state_values \<times> db" where
  "run_turns [] sd = sd"
| "run_turns ((rt, message_text, userId) # ms) (st, d) =
     (case handler rt message_text userId st d of (st', d', r, reqs) \<Rightarrow> run_turns ms (st', d'))"

section \<open>The property detail request\<close>

text \<open>
  \<open>fetchPropertyDetails\<close> asks the detail provider up to \<open>MAX_ATTEMPTS\<close> times. The provider
  is the answer it gives to each attempt: no answer at all, or a status with the parsed
  body (\<open>None\<close> when the body is no JSON). The loop records the waits (in ms) and the number
  of requests made.
\<close>

datatype 'a detail_result =
    DetailNetworkError
  | DetailResponse nat "'a option"

definition MAX_ATTEMPTS :: nat where
  "MAX_ATTEMPTS = 3"

definition backoffMs :: "nat \<Rightarrow> nat" where
  "backoffMs attempt = min (1000 * 2 ^ (attempt - 1)) 5000"

definition wait_before_retry :: "nat \<Rightarrow> nat list \<Rightarrow> nat list" where
  "wait_before_retry attempt waits =
     (if attempt < MAX_ATTEMPTS then waits @ [backoffMs attempt] else waits)"

function detail_loop ::
  "(nat \<Rightarrow> 'a detail_result) \<Rightarrow> nat \<Rightarrow> error option \<Rightarrow> nat list
     \<Rightarrow> (error option + 'a) \<times> nat list \<times> nat" where
  "detail_loop provider attempt lastError waits =
     (if attempt \<le> MAX_ATTEMPTS then
        (case provider attempt of
           DetailNetworkError \<Rightarrow>
             detail_loop provider (attempt + 1) (Some FetchFailed) (wait_before_retry attempt waits)
         | DetailResponse status body \<Rightarrow>
             if status = 200 then
               (case body of
                  Some data \<Rightarrow> (Inr data, waits, attempt)
                | None \<Rightarrow>
                    detail_loop provider (attempt + 1) (Some InvalidJson)
                      (wait_before_retry attempt waits))
             else if \<not> res_ok status then
               detail_loop provider (attempt + 1) (Some (WebhookError status))
                 (wait_before_retry attempt waits)
             else
               (case body of
                  Some data \<Rightarrow> (Inr data, waits, attempt)
                | None \<Rightarrow>
                    detail_loop provider (attempt + 1) (Some InvalidJson)
                      (wait_before_retry attempt waits)))
      else (Inl lastError, waits, attempt - 1))"
  by pat_completeness auto
termination
  by (relation "measure (\<lambda>(provider, attempt, lastError, waits). MAX_ATTEMPTS + 1 - attempt)") auto

definition fetchPropertyDetails :: "(nat \<Rightarrow> 'a detail_result) \<Rightarrow> 'a option \<times> nat list \<times> nat" where
  "fetchPropertyDetails provider =
     (case detail_loop provider 1 None [] of
        (Inr data, waits, n) \<Rightarrow> (Some data, waits, n)
      | (Inl err, waits, n) \<Rightarrow> (None, waits, n))"

section \<open>Sample runtimes and tables\<close>

definition no_tables :: db where
  "no_tables = \<lparr>preferences = [], search_logs = []\<rparr>"

definition sample_listing :: raw_listing where
  "sample_listing =
     \<lparr>raw_title = Some ''Marina flat'', raw_price = None, raw_link = Some ''https://pf.ae/1''\<rparr>"

definition uuid_of :: "string \<Rightarrow> nat \<Rightarrow> string" where
  "uuid_of userId t = ''search-'' @ userId @ ''-'' @ string_of_nat t"

definition answering :: "json \<Rightarrow> payload \<Rightarrow> http_result" where
  "answering j p = Response 200 (Some j)"

definition unreachable :: "payload \<Rightarrow> http_result" where
  "unreachable p = NetworkError"

definition runtime_up :: runtime where
  "runtime_up =
     \<lparr>sql = SqlWorking, now = 7, createUniqueUuid = uuid_of,
      webhook = answering (JArr [sample_listing])\<rparr>"

definition runtime_down :: runtime where
  "runtime_down =
     \<lparr>sql = SqlWorking, now = 7, createUniqueUuid = uuid_of, webhook = unreachable\<rparr>"

definition listings_response :: json where
  "listings_response =
     JObj [(''status'', JStr ''ok''),
           (''listings'',
            JArr [\<lparr>raw_title = Some ''A'', raw_price = Some ''AED 1'', raw_link = Some ''l1''\<rparr>,
                  \<lparr>raw_title = None, raw_price = None, raw_link = Some ''l2''\<rparr>,
                  \<lparr>raw_title = Some ''C'', raw_price = Some ''AED 3'', raw_link = None\<rparr>,
                  \<lparr>raw_title = Some ''D'', raw_price = Some ''AED 4'', raw_link = Some ''#''\<rparr>,
                  \<lparr>raw_title = Some ''E'', raw_price = Some ''AED 5'', raw_link = Some ''l5''\<rparr>,
                  \<lparr>raw_title = Some ''F'', raw_price = Some ''AED 6'', raw_link = Some ''l6''\<rparr>,
                  \<lparr>raw_title = Some ''G'', raw_price = Some ''AED 7'', raw_link = Some ''l7''\<rparr>,
                  \<lparr>raw_title = Some ''H'', raw_price = Some ''AED 8'', raw_link = Some ''l8''\<rparr>])]"

definition only_area :: "string \<Rightarrow> criteria" where
  "only_area a = empty_criteria\<lparr>area := Some a\<rparr>"

definition always_503 :: "nat \<Rightarrow> string detail_result" where
  "always_503 attempt = DetailResponse 503 None"

definition third_time :: "nat \<Rightarrow> string detail_result" where
  "third_time attempt =
     (if attempt = 1 then DetailNetworkError
      else if attempt = 2 then DetailResponse 500 None
      else DetailResponse 200 (Some ''detail''))"

definition first_search :: criteria where
  "first_search =
     \<lparr>area = Some ''JVC'', propertyType = Some ''apartment'', bedrooms = Some (BStr ''2''),
      maxPrice = Some 1500000, minPrice = None\<rparr>"




definition browsing :: state_values where
  "browsing =
     \<lparr>awaitingPropertyCriteria = False, showingListingResults = True,
      lastSearchCriteria = Some first_search\<rparr>"

definition asked_for_criteria :: state_values where
  "asked_for_criteria =
     \<lparr>awaitingPropertyCriteria = True, showingListingResults = False,
      lastSearchCriteria = None\<rparr>"

section \<open>Notions of the specification\<close>

text \<open>
  An attempt of the detail request that the loop answers with a retry, in the words of the
  specification: a transport failure or a status outside \<open>2xx\<close>.
\<close>

definition retryable :: "'a detail_result \<Rightarrow> bool" where
  "retryable r =
     (case r of DetailNetworkError \<Rightarrow> True | DetailResponse status body \<Rightarrow> \<not> res_ok status)"



text \<open>
  The conditions under which a turn reaches the branch of the handler that awaits criteria
  (transition 4) and the branch that searches on the criteria found in a fresh message
  (transition 6): none of the earlier branches has returned.
\<close>

definition browsing_command :: "state_values \<Rightarrow> string \<Rightarrow> bool" where
  "browsing_command st text =
     (showingListingResults st \<and>
      (rx_test showMorePattern text \<or> rx_test narrowPattern text \<or> rx_test savePattern text))"

definition transition4 :: "state_values \<Rightarrow> string \<Rightarrow> bool" where
  "transition4 st text = (\<not> browsing_command st text \<and> awaitingPropertyCriteria st)"

definition transition6 :: "state_values \<Rightarrow> string \<Rightarrow> bool" where
  "transition6 st text =
     (\<not> browsing_command st text \<and> \<not> awaitingPropertyCriteria st \<and>
      \<not> (rx_test savedSearchPattern text \<or> rx_test newListingsPattern text) \<and>
      enough_detail (extractSearchCriteria text))"

section \<open>Letters\<close>

text \<open>The bit test singles out the capital letters, and each goes to its small letter.\<close>

lemma is_upper_iff: "is_upper c = (c \<in> set ''ABCDEFGHIJKLMNOPQRSTUVWXYZ'')"
proof -
  have "\<forall>c::char. is_upper c = (c \<in> set ''ABCDEFGHIJKLMNOPQRSTUVWXYZ'')"
    by code_simp
  then show ?thesis by blast
qed

lemma lower_char_capitals:
  "map lower_char ''ABCDEFGHIJKLMNOPQRSTUVWXYZ'' = ''abcdefghijklmnopqrstuvwxyz''"
  by code_simp

lemma lower_char_other: "\<not> is_upper c \<Longrightarrow> lower_char c = c"
  by (simp add: lower_char_def)

lemma digit_nth:
  "k < 10 \<Longrightarrow> is_digit (''0123456789'' ! k) \<and> digit_of (''0123456789'' ! k) = k"
proof -
  have "\<forall>k\<in>set [0..<10]. is_digit (''0123456789'' ! k) \<and> digit_of (''0123456789'' ! k) = k"
    by code_simp
  then show "k < 10 \<Longrightarrow> ?thesis" by simp
qed

lemma digit_plain:
  "is_digit c \<Longrightarrow> \<not> is_space c \<and> c \<noteq> CHR ''-'' \<and> c \<noteq> CHR ''+'' \<and> lower_char c = c"
proof -
  have "\<forall>c::char. is_digit c \<longrightarrow>
          \<not> is_space c \<and> c \<noteq> CHR ''-'' \<and> c \<noteq> CHR ''+'' \<and> lower_char c = c"
    by code_simp
  then show "is_digit c \<Longrightarrow> ?thesis" by blast
qed

section \<open>Decimal numerals and \<open>parseInt\<close>\<close>

text \<open>
  \<open>parseInt\<close> reads back the decimal numeral of every natural number, also when text that
  does not start with a digit follows it, and finds no number in a text whose first
  character is neither a digit, white space nor a sign.
\<close>

declare string_of_nat.simps [simp del]

lemma string_of_nat_digits:
  "string_of_nat n \<noteq> [] \<and> (\<forall>c\<in>set (string_of_nat n). is_digit c)"
proof (induction n rule: string_of_nat.induct)
  case (1 n)
  show ?case
  proof (cases "n < 10")
    case True
    then show ?thesis using digit_nth[of n]
      by (subst (1 2) string_of_nat.simps) simp
  next
    case False
    then show ?thesis using "1.IH" digit_nth[of "n mod 10"]
      by (subst (1 2) string_of_nat.simps) simp
  qed
qed

lemma digits_val_snoc: "digits_val (xs @ [c]) = 10 * digits_val xs + digit_of c"
  by (simp add: digits_val_def)

lemma digits_val_string_of_nat: "digits_val (string_of_nat n) = n"
proof (induction n rule: string_of_nat.induct)
  case (1 n)
  show ?case
  proof (cases "n < 10")
    case True
    then show ?thesis using digit_nth[of n]
      by (subst string_of_nat.simps) (simp add: digits_val_def)
  next
    case False
    then show ?thesis using "1.IH" digit_nth[of "n mod 10"]
      by (subst string_of_nat.simps) (simp add: digits_val_snoc)
  qed
qed

lemma parseInt_digits:
  assumes "ds \<noteq> []" "\<forall>c\<in>set ds. is_digit c" "\<forall>ch r. rest = ch # r \<longrightarrow> \<not> is_digit ch"
  shows "parseInt (ds @ rest) = Some (int (digits_val ds))"
proof -
  obtain d ds' where ds: "ds = d # ds'" using assms(1) by (cases ds) auto
  with assms(2) have d: "is_digit d" by simp
  have tw: "takeWhile is_digit (ds @ rest) = ds"
    using assms(2,3) by (cases rest) (simp_all add: takeWhile_append2)
  from d digit_plain[of d] have dw: "dropWhile is_space (ds @ rest) = ds @ rest"
    by (simp add: ds)
  show ?thesis
    using digit_plain[OF d] tw assms(1)
    unfolding parseInt_def dw by (simp add: ds Let_def)
qed

lemma parseInt_string_of_nat:
  "\<forall>ch r. rest = ch # r \<longrightarrow> \<not> is_digit ch \<Longrightarrow>
   parseInt (string_of_nat n @ rest) = Some (int n)"
  using parseInt_digits[of "string_of_nat n" rest] string_of_nat_digits[of n]
  by (simp add: digits_val_string_of_nat)

lemma parseInt_no_number:
  "\<not> is_digit ch \<Longrightarrow> \<not> is_space ch \<Longrightarrow> ch \<noteq> CHR ''-'' \<Longrightarrow> ch \<noteq> CHR ''+'' \<Longrightarrow>
   parseInt (ch # r) = None"
  by (simp add: parseInt_def)

lemma digits_not_studio:
  assumes "ds \<noteq> []" "\<forall>c\<in>set ds. is_digit c"
  shows "toLowerCase (ds @ rest) \<noteq> ''studio''"
proof -
  from assms obtain d ds' where ds: "ds = d # ds'" by (cases ds) auto
  with assms have d: "is_digit d" by simp
  have "\<not> is_digit CHR ''s''" by (simp add: is_digit_def)
  with d digit_plain[OF d] show ?thesis by (auto simp: toLowerCase_def ds)
qed

section \<open>Substring search\<close>

lemma str_includes_sublist: "str_includes s p = sublist p s"
  by (induction s) (auto simp: sublist_Cons_right)

lemma includes_suffix_part:
  "str_includes t (pre @ word) \<Longrightarrow> str_includes t word"
  unfolding str_includes_sublist
  by (metis sublist_appendI sublist_order.dual_order.trans append_Nil2)

section \<open>Properties of the property type extraction\<close>

text \<open>
  C10. The extractor never answers \<open>townhouse\<close> or \<open>penthouse\<close>: a text that contains one of
  the two words contains \<open>house\<close>, and the check for \<open>villa\<close>/\<open>house\<close> comes first. The
  property type of the extracted criteria is absent, \<open>apartment\<close> or \<open>villa\<close>.
\<close>

theorem extract_propertyType_range:
  "propertyType (extractSearchCriteria text) \<noteq> Some ''townhouse'' \<and>
   propertyType (extractSearchCriteria text) \<noteq> Some ''penthouse'' \<and>
   propertyType (extractSearchCriteria text) \<in> {None, Some ''apartment'', Some ''villa''}"
  using includes_suffix_part[of "toLowerCase text" "''town''" "''house''"]
        includes_suffix_part[of "toLowerCase text" "''pent''" "''house''"]
  by (simp add: extractSearchCriteria_def extract_propertyType_def)

theorem extract_propertyType_range_witness:
  "propertyType (extractSearchCriteria ''a townhouse'') \<noteq> Some ''townhouse'' \<and>
   extract_propertyType ''a townhouse'' = Some ''villa'' \<and>
   extract_propertyType ''Penthouse'' = Some ''villa''"
proof -
  have a: "extract_propertyType ''a townhouse'' = Some ''villa''" by code_simp
  have b: "extract_propertyType ''Penthouse'' = Some ''villa''" by code_simp
  from extract_propertyType_range[of "''a townhouse''"] a b show ?thesis by blast
qed

section \<open>Properties of the listing search\<close>

lemma payload_area_keys: "fst ` set (payload_area c) \<subseteq> {''area''}"
  by (auto simp: payload_area_def split: option.splits if_splits)

lemma payload_bedrooms_keys: "fst ` set (payload_bedrooms c) \<subseteq> {''bedrooms''}"
proof (cases "bedrooms c")
  case None
  then show ?thesis by (simp add: payload_bedrooms_def)
next
  case (Some b)
  then show ?thesis
    by (cases b) (auto simp: payload_bedrooms_def split: option.splits if_splits)
qed

lemma payload_maxPrice_keys: "fst ` set (payload_maxPrice c) \<subseteq> {''maxPrice''}"
  by (auto simp: payload_maxPrice_def split: option.splits if_splits)

lemma build_payload_keys:
  "fst ` set (build_payload c) \<subseteq> {''area'', ''bedrooms'', ''maxPrice''}"
  using payload_area_keys[of c] payload_bedrooms_keys[of c] payload_maxPrice_keys[of c]
  by (auto simp: build_payload_def)

lemma map_of_payload_bedrooms:
  "map_of (build_payload c) ''bedrooms'' = map_of (payload_bedrooms c) ''bedrooms''"
proof -
  have a: "map_of (payload_area c) ''bedrooms'' = None"
    using payload_area_keys[of c] by (auto simp: map_of_eq_None_iff)
  have m: "map_of (payload_maxPrice c) ''bedrooms'' = None"
    using payload_maxPrice_keys[of c] by (auto simp: map_of_eq_None_iff)
  show ?thesis by (simp add: build_payload_def map_add_def a m split: option.splits)
qed

lemma fetchAds_requests: "snd (fetchAds wh c) = (if build_payload c = [] then [] else [build_payload c])"
  by (simp add: fetchAds_def Let_def split: http_result.splits option.splits sum.splits)

lemma build_payload_ignores:
  "build_payload (c\<lparr>propertyType := t, minPrice := m\<rparr>) = build_payload c"
  by (simp add: build_payload_def payload_area_def payload_bedrooms_def payload_maxPrice_def)

text \<open>
  C8. When the criteria give an empty request body, \<open>fetchAds\<close> returns the empty list of
  listings and sends no request, whatever the provider would have answered.
\<close>

theorem fetchAds_empty_payload:
  "build_payload c = [] \<Longrightarrow> fetchAds wh c = (Inr [], [])"
  by (simp add: fetchAds_def)

theorem fetchAds_empty_payload_witness:
  "build_payload \<lparr>area = None, propertyType = Some ''villa'', bedrooms = Some (BStr ''two''),
                   maxPrice = None, minPrice = Some 100\<rparr> = [] \<and>
   fetchAds unreachable \<lparr>area = None, propertyType = Some ''villa'', bedrooms = Some (BStr ''two''),
                          maxPrice = None, minPrice = Some 100\<rparr> = (Inr [], [])"
proof -
  have h: "build_payload \<lparr>area = None, propertyType = Some ''villa'', bedrooms = Some (BStr ''two''),
                           maxPrice = None, minPrice = Some 100\<rparr> = []"
    by code_simp
  from h fetchAds_empty_payload[OF h, of unreachable] show ?thesis by simp
qed

text \<open>
  C9. The request body has no key other than \<open>area\<close>, \<open>bedrooms\<close> and \<open>maxPrice\<close>, and does
  not depend on \<open>propertyType\<close> and \<open>minPrice\<close>; the only body ever sent is the one built from
  the criteria, and an empty body is not sent; \<open>studio\<close> (in any case) gives
  \<open>bedrooms = 0\<close>, and another bedrooms string gives its \<open>parseInt\<close> value, or no \<open>bedrooms\<close>
  key when that is \<open>NaN\<close>. In particular a bedrooms string that is the decimal numeral of
  \<open>n\<close> (up to \<open>2^53 - 1\<close>, where doubles are exact), alone or followed by text that does not
  start with a digit, gives \<open>bedrooms = n\<close>; and a string other than \<open>studio\<close> whose first
  character is neither a digit, white space nor a sign gives no \<open>bedrooms\<close> key.
\<close>

theorem fetchAds_request_body:
  "fst ` set (build_payload c) \<subseteq> {''area'', ''bedrooms'', ''maxPrice''} \<and>
   build_payload (c\<lparr>propertyType := t, minPrice := m\<rparr>) = build_payload c \<and>
   set (snd (fetchAds wh c)) \<subseteq> {build_payload c} \<and>
   [] \<notin> set (snd (fetchAds wh c)) \<and>
   (\<forall>s. bedrooms c = Some (BStr s) \<and> toLowerCase s = ''studio''
        \<longrightarrow> map_of (build_payload c) ''bedrooms'' = Some (PNum 0)) \<and>
   (\<forall>s. bedrooms c = Some (BStr s) \<and> toLowerCase s \<noteq> ''studio''
        \<longrightarrow> map_of (build_payload c) ''bedrooms'' = map_option PNum (parseInt s)) \<and>
   (\<forall>n rest. n \<le> 9007199254740991 \<and> (\<forall>ch r. rest = ch # r \<longrightarrow> \<not> is_digit ch) \<and>
        bedrooms c = Some (BStr (string_of_nat n @ rest))
        \<longrightarrow> map_of (build_payload c) ''bedrooms'' = Some (PNum (int n))) \<and>
   (\<forall>ch r. bedrooms c = Some (BStr (ch # r)) \<and> toLowerCase (ch # r) \<noteq> ''studio'' \<and>
        \<not> is_digit ch \<and> \<not> is_space ch \<and> ch \<noteq> CHR ''-'' \<and> ch \<noteq> CHR ''+''
        \<longrightarrow> map_of (build_payload c) ''bedrooms'' = None \<and>
            ''bedrooms'' \<notin> fst ` set (build_payload c))"
proof -
  have studio: "map_of (build_payload c) ''bedrooms'' = Some (PNum 0)"
    if "bedrooms c = Some (BStr s)" "toLowerCase s = ''studio''" for s
  proof -
    from that(2) have "s \<noteq> []" by (auto simp: toLowerCase_def)
    with that show ?thesis by (simp add: map_of_payload_bedrooms payload_bedrooms_def)
  qed
  have other: "map_of (build_payload c) ''bedrooms'' = map_option PNum (parseInt s)"
    if "bedrooms c = Some (BStr s)" "toLowerCase s \<noteq> ''studio''" for s
    using that
    by (cases "parseInt s")
       (auto simp: map_of_payload_bedrooms payload_bedrooms_def parseInt_def)
  have numeral: "map_of (build_payload c) ''bedrooms'' = Some (PNum (int n))"
    if "\<forall>ch r. rest = ch # r \<longrightarrow> \<not> is_digit ch"
       "bedrooms c = Some (BStr (string_of_nat n @ rest))" for n rest
  proof -
    have "toLowerCase (string_of_nat n @ rest) \<noteq> ''studio''"
      using string_of_nat_digits[of n] by (intro digits_not_studio) auto
    from other[OF that(2) this] parseInt_string_of_nat[OF that(1), of n]
    show ?thesis by simp
  qed
  have unparsed: "map_of (build_payload c) ''bedrooms'' = None \<and>
                 ''bedrooms'' \<notin> fst ` set (build_payload c)"
    if "bedrooms c = Some (BStr (ch # r))" "toLowerCase (ch # r) \<noteq> ''studio''"
       "\<not> is_digit ch" "\<not> is_space ch" "ch \<noteq> CHR ''-''" "ch \<noteq> CHR ''+''" for ch r
  proof -
    from other[OF that(1,2)] parseInt_no_number[OF that(3-6), of r]
    have "map_of (build_payload c) ''bedrooms'' = None" by simp
    then show ?thesis by (simp add: map_of_eq_None_iff)
  qed
  have first: "fst ` set (build_payload c) \<subseteq> {''area'', ''bedrooms'', ''maxPrice''} \<and>
     build_payload (c\<lparr>propertyType := t, minPrice := m\<rparr>) = build_payload c \<and>
     set (snd (fetchAds wh c)) \<subseteq> {build_payload c} \<and>
     [] \<notin> set (snd (fetchAds wh c))"
    using build_payload_keys[of c] build_payload_ignores[where c = c and t = t and m = m]
    by (simp add: fetchAds_requests)
  have c5: "\<forall>s. bedrooms c = Some (BStr s) \<and> toLowerCase s = ''studio''
        \<longrightarrow> map_of (build_payload c) ''bedrooms'' = Some (PNum 0)"
    by (intro allI impI, elim conjE, rule studio) assumption+
  have c6: "\<forall>s. bedrooms c = Some (BStr s) \<and> toLowerCase s \<noteq> ''studio''
        \<longrightarrow> map_of (build_payload c) ''bedrooms'' = map_option PNum (parseInt s)"
    by (intro allI impI, elim conjE, rule other) assumption+
  have c7: "\<forall>n rest. n \<le> 9007199254740991 \<and> (\<forall>ch r. rest = ch # r \<longrightarrow> \<not> is_digit ch) \<and>
        bedrooms c = Some (BStr (string_of_nat n @ rest))
        \<longrightarrow> map_of (build_payload c) ''bedrooms'' = Some (PNum (int n))"
    by (intro allI impI, elim conjE, rule numeral) assumption+
  have c8: "\<forall>ch r. bedrooms c = Some (BStr (ch # r)) \<and> toLowerCase (ch # r) \<noteq> ''studio'' \<and>
        \<not> is_digit ch \<and> \<not> is_space ch \<and> ch \<noteq> CHR ''-'' \<and> ch \<noteq> CHR ''+''
        \<longrightarrow> map_of (build_payload c) ''bedrooms'' = None \<and>
            ''bedrooms'' \<notin> fst ` set (build_payload c)"
  proof (intro allI impI)
    fix ch r
    assume "bedrooms c = Some (BStr (ch # r)) \<and> toLowerCase (ch # r) \<noteq> ''studio'' \<and>
        \<not> is_digit ch \<and> \<not> is_space ch \<and> ch \<noteq> CHR ''-'' \<and> ch \<noteq> CHR ''+''"
    then have p: "bedrooms c = Some (BStr (ch # r))" "toLowerCase (ch # r) \<noteq> ''studio''"
      "\<not> is_digit ch" "\<not> is_space ch" "ch \<noteq> CHR ''-''" "ch \<noteq> CHR ''+''"
      by blast+
    show "map_of (build_payload c) ''bedrooms'' = None \<and>
            ''bedrooms'' \<notin> fst ` set (build_payload c)"
      by (rule unparsed[OF p])
  qed
  show ?thesis
    using first c5 c6 c7 c8 by (elim conjE, intro conjI) assumption+
qed

theorem fetchAds_request_body_witness:
  "toLowerCase ''Studio'' = ''studio'' \<and>
   map_of (build_payload \<lparr>area = Some ''JVC'', propertyType = Some ''villa'',
                          bedrooms = Some (BStr ''Studio''), maxPrice = None,
                          minPrice = Some 5\<rparr>) ''bedrooms'' = Some (PNum 0) \<and>
   toLowerCase ''two'' \<noteq> ''studio'' \<and>
   map_of (build_payload \<lparr>area = Some ''JVC'', propertyType = None,
                          bedrooms = Some (BStr ''two''), maxPrice = None,
                          minPrice = None\<rparr>) ''bedrooms'' = None \<and>
   string_of_nat 3 = ''3'' \<and>
   map_of (build_payload \<lparr>area = None, propertyType = None,
                          bedrooms = Some (BStr ''3''), maxPrice = None,
                          minPrice = None\<rparr>) ''bedrooms'' = Some (PNum 3) \<and>
   string_of_nat 12 @ '' beds'' = ''12 beds'' \<and>
   map_of (build_payload \<lparr>area = None, propertyType = None,
                          bedrooms = Some (BStr ''12 beds''), maxPrice = None,
                          minPrice = None\<rparr>) ''bedrooms'' = Some (PNum 12)"
proof -
  have h1: "toLowerCase ''Studio'' = ''studio''" by code_simp
  have h2: "toLowerCase ''two'' \<noteq> ''studio''" by code_simp
  have h2': "\<not> is_digit CHR ''t''" "\<not> is_space CHR ''t''" by code_simp+
  have h3: "string_of_nat 3 = ''3''" by code_simp
  have h4: "string_of_nat 12 @ '' beds'' = ''12 beds''" by code_simp
  have h5: "\<not> is_digit CHR '' ''" by code_simp
  note studio = fetchAds_request_body[where c = "\<lparr>area = Some ''JVC'', propertyType = Some ''villa'',
                            bedrooms = Some (BStr ''Studio''), maxPrice = None,
                            minPrice = Some 5\<rparr>" and wh = unreachable,
      THEN conjunct2, THEN conjunct2, THEN conjunct2, THEN conjunct2, THEN conjunct1,
      rule_format, of "''Studio''"]
  have a:
    "map_of (build_payload \<lparr>area = Some ''JVC'', propertyType = Some ''villa'',
                            bedrooms = Some (BStr ''Studio''), maxPrice = None,
                            minPrice = Some 5\<rparr>) ''bedrooms'' = Some (PNum 0)"
    by (rule studio) (simp add: h1)
  note unparsable = fetchAds_request_body[where c = "\<lparr>area = Some ''JVC'', propertyType = None,
                            bedrooms = Some (BStr ''two''), maxPrice = None,
                            minPrice = None\<rparr>" and wh = unreachable,
      THEN conjunct2, THEN conjunct2, THEN conjunct2, THEN conjunct2, THEN conjunct2,
      THEN conjunct2, THEN conjunct2, rule_format, of "CHR ''t''" "''wo''", THEN conjunct1]
  have b:
    "map_of (build_payload \<lparr>area = Some ''JVC'', propertyType = None,
                            bedrooms = Some (BStr ''two''), maxPrice = None,
                            minPrice = None\<rparr>) ''bedrooms'' = None"
    by (rule unparsable) (simp add: h2 h2')
  note three = fetchAds_request_body[where c = "\<lparr>area = None, propertyType = None,
                          bedrooms = Some (BStr ''3''), maxPrice = None,
                          minPrice = None\<rparr>" and wh = unreachable,
      THEN conjunct2, THEN conjunct2, THEN conjunct2, THEN conjunct2, THEN conjunct2,
      THEN conjunct2, THEN conjunct1, rule_format, of 3 "[]"]
  have c: "map_of (build_payload \<lparr>area = None, propertyType = None,
                          bedrooms = Some (BStr ''3''), maxPrice = None,
                          minPrice = None\<rparr>) ''bedrooms'' = Some (PNum (int 3))"
    by (rule three) (simp add: h3)
  note twelve = fetchAds_request_body[where c = "\<lparr>area = None, propertyType = None,
                          bedrooms = Some (BStr ''12 beds''), maxPrice = None,
                          minPrice = None\<rparr>" and wh = unreachable,
      THEN conjunct2, THEN conjunct2, THEN conjunct2, THEN conjunct2, THEN conjunct2,
      THEN conjunct2, THEN conjunct1, rule_format, of 12 "'' beds''"]
  have d: "map_of (build_payload \<lparr>area = None, propertyType = None,
                          bedrooms = Some (BStr ''12 beds''), maxPrice = None,
                          minPrice = None\<rparr>) ''bedrooms'' = Some (PNum (int 12))"
    by (rule twelve) (simp add: h4 h5)
  from h1 h2 h3 h4 a b c d show ?thesis by simp
qed

lemma to_ad_link:
  "link (to_ad item) \<noteq> [] \<and>
   (link (to_ad item) \<noteq> ''#'') =
     (raw_link item \<noteq> None \<and> raw_link item \<noteq> Some [] \<and> raw_link item \<noteq> Some ''#'')"
  by (cases "raw_link item") (auto simp: to_ad_def or_default_def)

lemma to_ads_eq:
  "to_ads rawListings =
     take 5 (map to_ad (filter (\<lambda>item. raw_link item \<noteq> None \<and> raw_link item \<noteq> Some [] \<and>
                                       raw_link item \<noteq> Some ''#'') rawListings))"
  by (simp add: to_ads_def valid_link_def filter_map o_def to_ad_link)

lemma to_ads_bound: "length (to_ads rawListings) \<le> 5"
  by (simp add: to_ads_def)

lemma to_ads_links: "a \<in> set (to_ads rawListings) \<Longrightarrow> link a \<noteq> ''#'' \<and> link a \<noteq> []"
  by (auto simp: to_ads_def valid_link_def dest!: in_set_takeD)

lemma fetchAds_Inr:
  "fetchAds wh c = (Inr ads, reqs) \<Longrightarrow> ads = [] \<or> (\<exists>raw. ads = to_ads raw)"
  by (auto simp: fetchAds_def Let_def
           split: if_splits http_result.splits option.splits sum.splits)

lemma fetchAds_ok:
  "build_payload c \<noteq> [] \<Longrightarrow> wh (build_payload c) = Response status (Some responseJson) \<Longrightarrow>
   res_ok status \<Longrightarrow> find_listings responseJson = Inr (Some rawListings) \<Longrightarrow>
   fetchAds wh c = (Inr (to_ads rawListings), [build_payload c])"
  by (simp add: fetchAds_def)

lemma to_ad_defaults:
  "(raw_title item = None \<longrightarrow> title (to_ad item) = ''No Title'') \<and>
   (raw_price item = None \<longrightarrow> price (to_ad item) = ''Price not specified'') \<and>
   (\<forall>t. raw_title item = Some t \<and> t \<noteq> [] \<longrightarrow> title (to_ad item) = t) \<and>
   (\<forall>t. raw_price item = Some t \<and> t \<noteq> [] \<longrightarrow> price (to_ad item) = t) \<and>
   (\<forall>l. raw_link item = Some l \<and> l \<noteq> [] \<longrightarrow> link (to_ad item) = l)"
  by (simp add: to_ad_def or_default_def)

text \<open>
  C6. Whatever the provider answers, a list that \<open>fetchAds\<close> returns has at most 5 listings
  and none with the placeholder link \<open>#\<close> (or an empty link). When the provider answers with
  a success status and a body in which the listings array is found, the result is: the
  entries whose link is present and not the placeholder, in the provider's order, each
  mapped to a listing (an absent title becomes \<open>No Title\<close>, an absent price
  \<open>Price not specified\<close>, values that are present are kept), cut to the first 5.
\<close>

theorem fetchAds_listings:
  "(\<forall>ads reqs. fetchAds wh c = (Inr ads, reqs) \<longrightarrow>
       length ads \<le> 5 \<and> (\<forall>a\<in>set ads. link a \<noteq> ''#'' \<and> link a \<noteq> [])) \<and>
   (build_payload c \<noteq> [] \<and> wh (build_payload c) = Response status (Some responseJson) \<and>
    res_ok status \<and> find_listings responseJson = Inr (Some rawListings) \<longrightarrow>
      fst (fetchAds wh c) =
        Inr (take 5 (map to_ad (filter (\<lambda>item. raw_link item \<noteq> None \<and> raw_link item \<noteq> Some [] \<and>
                                               raw_link item \<noteq> Some ''#'') rawListings)))) \<and>
   (raw_title item = None \<longrightarrow> title (to_ad item) = ''No Title'') \<and>
   (raw_price item = None \<longrightarrow> price (to_ad item) = ''Price not specified'') \<and>
   (\<forall>t. raw_title item = Some t \<and> t \<noteq> [] \<longrightarrow> title (to_ad item) = t) \<and>
   (\<forall>t. raw_price item = Some t \<and> t \<noteq> [] \<longrightarrow> price (to_ad item) = t) \<and>
   (\<forall>l. raw_link item = Some l \<and> l \<noteq> [] \<longrightarrow> link (to_ad item) = l)"
proof -
  have a: "length ads \<le> 5 \<and> (\<forall>a\<in>set ads. link a \<noteq> ''#'' \<and> link a \<noteq> [])"
    if "fetchAds wh c = (Inr ads, reqs)" for ads reqs
    using fetchAds_Inr[OF that] to_ads_bound to_ads_links by auto
  have b: "fst (fetchAds wh c) =
        Inr (take 5 (map to_ad (filter (\<lambda>item. raw_link item \<noteq> None \<and> raw_link item \<noteq> Some [] \<and>
                                               raw_link item \<noteq> Some ''#'') rawListings)))"
    if "build_payload c \<noteq> []" "wh (build_payload c) = Response status (Some responseJson)"
       "res_ok status" "find_listings responseJson = Inr (Some rawListings)"
    using fetchAds_ok[where wh = wh, OF that] by (simp add: to_ads_eq)
  from a b to_ad_defaults[of item] show ?thesis by blast
qed

theorem fetchAds_listings_witness:
  "build_payload (only_area ''JVC'') \<noteq> [] \<and>
   answering listings_response (build_payload (only_area ''JVC'')) =
     Response 200 (Some listings_response) \<and>
   res_ok 200 \<and>
   fst (fetchAds (answering listings_response) (only_area ''JVC'')) =
     Inr [\<lparr>title = ''A'', price = ''AED 1'', link = ''l1''\<rparr>,
          \<lparr>title = ''No Title'', price = ''Price not specified'', link = ''l2''\<rparr>,
          \<lparr>title = ''E'', price = ''AED 5'', link = ''l5''\<rparr>,
          \<lparr>title = ''F'', price = ''AED 6'', link = ''l6''\<rparr>,
          \<lparr>title = ''G'', price = ''AED 7'', link = ''l7''\<rparr>]"
proof -
  have h1: "build_payload (only_area ''JVC'') \<noteq> []" by code_simp
  have h2: "answering listings_response (build_payload (only_area ''JVC'')) =
              Response 200 (Some listings_response)"
    by (simp add: answering_def)
  have h3: "res_ok 200" by (simp add: res_ok_def)
  have h4: "find_listings listings_response =
              Inr (Some [\<lparr>raw_title = Some ''A'', raw_price = Some ''AED 1'', raw_link = Some ''l1''\<rparr>,
                  \<lparr>raw_title = None, raw_price = None, raw_link = Some ''l2''\<rparr>,
                  \<lparr>raw_title = Some ''C'', raw_price = Some ''AED 3'', raw_link = None\<rparr>,
                  \<lparr>raw_title = Some ''D'', raw_price = Some ''AED 4'', raw_link = Some ''#''\<rparr>,
                  \<lparr>raw_title = Some ''E'', raw_price = Some ''AED 5'', raw_link = Some ''l5''\<rparr>,
                  \<lparr>raw_title = Some ''F'', raw_price = Some ''AED 6'', raw_link = Some ''l6''\<rparr>,
                  \<lparr>raw_title = Some ''G'', raw_price = Some ''AED 7'', raw_link = Some ''l7''\<rparr>,
                  \<lparr>raw_title = Some ''H'', raw_price = Some ''AED 8'', raw_link = Some ''l8''\<rparr>])"
    by (simp add: find_listings_def listings_response_def)
  from h1 h2 h3 h4
    fetchAds_listings[where wh = "answering listings_response" and c = "only_area ''JVC''"
      and status = 200 and responseJson = listings_response]
  have "fst (fetchAds (answering listings_response) (only_area ''JVC'')) =
        Inr (take 5 (map to_ad (filter (\<lambda>item. raw_link item \<noteq> None \<and> raw_link item \<noteq> Some [] \<and>
               raw_link item \<noteq> Some ''#'')
             [\<lparr>raw_title = Some ''A'', raw_price = Some ''AED 1'', raw_link = Some ''l1''\<rparr>,
                  \<lparr>raw_title = None, raw_price = None, raw_link = Some ''l2''\<rparr>,
                  \<lparr>raw_title = Some ''C'', raw_price = Some ''AED 3'', raw_link = None\<rparr>,
                  \<lparr>raw_title = Some ''D'', raw_price = Some ''AED 4'', raw_link = Some ''#''\<rparr>,
                  \<lparr>raw_title = Some ''E'', raw_price = Some ''AED 5'', raw_link = Some ''l5''\<rparr>,
                  \<lparr>raw_title = Some ''F'', raw_price = Some ''AED 6'', raw_link = Some ''l6''\<rparr>,
                  \<lparr>raw_title = Some ''G'', raw_price = Some ''AED 7'', raw_link = Some ''l7''\<rparr>,
                  \<lparr>raw_title = Some ''H'', raw_price = Some ''AED 8'', raw_link = Some ''l8''\<rparr>])))"
    by blast
  then have "fst (fetchAds (answering listings_response) (only_area ''JVC'')) =
     Inr [\<lparr>title = ''A'', price = ''AED 1'', link = ''l1''\<rparr>,
          \<lparr>title = ''No Title'', price = ''Price not specified'', link = ''l2''\<rparr>,
          \<lparr>title = ''E'', price = ''AED 5'', link = ''l5''\<rparr>,
          \<lparr>title = ''F'', price = ''AED 6'', link = ''l6''\<rparr>,
          \<lparr>title = ''G'', price = ''AED 7'', link = ''l7''\<rparr>]"
    by (simp add: to_ad_def or_default_def)
  with h1 h2 h3 show ?thesis by blast
qed

section \<open>Properties of the property detail request\<close>

declare detail_loop.simps [simp del]

lemma loop_done: "detail_loop p 4 e w = (Inl e, w, 3)"
  by (simp add: detail_loop.simps[of p 4] MAX_ATTEMPTS_def)

lemma loop_bound: "attempt \<le> 4 \<Longrightarrow> snd (snd (detail_loop p attempt e w)) \<le> 3"
proof (induction p attempt e w rule: detail_loop.induct)
  case (1 provider attempt lastError waits)
  show ?case
  proof (cases "attempt \<le> MAX_ATTEMPTS")
    case True
    then have le: "attempt + 1 \<le> 4" by (simp add: MAX_ATTEMPTS_def)
    from True le show ?thesis
      using "1.IH"
      by (subst detail_loop.simps)
         (auto simp: MAX_ATTEMPTS_def split: detail_result.splits option.splits)
  next
    case False
    with "1.prems" show ?thesis
      by (subst detail_loop.simps) (simp add: MAX_ATTEMPTS_def)
  qed
qed

lemma retry1:
  "retryable (p 1) \<Longrightarrow> \<exists>e'. detail_loop p 1 e w = detail_loop p 2 (Some e') (w @ [1000])"
  by (subst detail_loop.simps)
     (auto simp: retryable_def MAX_ATTEMPTS_def wait_before_retry_def backoffMs_def res_ok_def
                 eval_nat_numeral
           split: detail_result.splits)

lemma retry2:
  "retryable (p 2) \<Longrightarrow> \<exists>e'. detail_loop p 2 e w = detail_loop p 3 (Some e') (w @ [2000])"
  by (subst detail_loop.simps)
     (auto simp: retryable_def MAX_ATTEMPTS_def wait_before_retry_def backoffMs_def res_ok_def
                 eval_nat_numeral
           split: detail_result.splits)

lemma retry3:
  "retryable (p 3) \<Longrightarrow> \<exists>e'. detail_loop p 3 e w = detail_loop p 4 (Some e') w"
  by (subst detail_loop.simps)
     (auto simp: retryable_def MAX_ATTEMPTS_def wait_before_retry_def backoffMs_def res_ok_def
                 eval_nat_numeral
           split: detail_result.splits)

lemma success_at:
  "p 1 = DetailResponse 200 (Some data) \<Longrightarrow> detail_loop p 1 e w = (Inr data, w, 1)"
  "p 2 = DetailResponse 200 (Some data) \<Longrightarrow> detail_loop p 2 e w = (Inr data, w, 2)"
  "p 3 = DetailResponse 200 (Some data) \<Longrightarrow> detail_loop p 3 e w = (Inr data, w, 3)"
  by (subst detail_loop.simps, simp add: MAX_ATTEMPTS_def)+

lemma all_attempts_fail:
  assumes "retryable (p 1)" "retryable (p 2)" "retryable (p 3)"
  shows "fetchPropertyDetails p = (None, [1000, 2000], 3)"
proof -
  from retry1[where p = p and e = None and w = "[]", OF assms(1)] obtain e1 where
    s1: "detail_loop p 1 None [] = detail_loop p 2 (Some e1) [1000]" by auto
  from retry2[where p = p and e = "Some e1" and w = "[1000]", OF assms(2)] obtain e2 where
    s2: "detail_loop p 2 (Some e1) [1000] = detail_loop p 3 (Some e2) [1000, 2000]" by auto
  from retry3[where p = p and e = "Some e2" and w = "[1000, 2000]", OF assms(3)] obtain e3 where
    s3: "detail_loop p 3 (Some e2) [1000, 2000] = detail_loop p 4 (Some e3) [1000, 2000]" by auto
  show ?thesis unfolding fetchPropertyDetails_def s1 s2 s3 loop_done by simp
qed

lemma first_attempt_ok:
  assumes "p 1 = DetailResponse 200 (Some data)"
  shows "fetchPropertyDetails p = (Some data, [], 1)"
proof -
  have r: "detail_loop p 1 None [] = (Inr data, [], 1)"
    using assms by (rule success_at(1))
  show ?thesis unfolding fetchPropertyDetails_def r by simp
qed

lemma second_attempt_ok:
  assumes "retryable (p 1)" "p 2 = DetailResponse 200 (Some data)"
  shows "fetchPropertyDetails p = (Some data, [1000], 2)"
proof -
  from retry1[where p = p and e = None and w = "[]", OF assms(1)] obtain e1 where
    s1: "detail_loop p 1 None [] = detail_loop p 2 (Some e1) [1000]" by auto
  have r: "detail_loop p 2 (Some e1) [1000] = (Inr data, [1000], 2)"
    using assms(2) by (rule success_at(2))
  show ?thesis unfolding fetchPropertyDetails_def s1 r by simp
qed

lemma third_attempt_ok:
  assumes "retryable (p 1)" "retryable (p 2)" "p 3 = DetailResponse 200 (Some data)"
  shows "fetchPropertyDetails p = (Some data, [1000, 2000], 3)"
proof -
  from retry1[where p = p and e = None and w = "[]", OF assms(1)] obtain e1 where
    s1: "detail_loop p 1 None [] = detail_loop p 2 (Some e1) [1000]" by auto
  from retry2[where p = p and e = "Some e1" and w = "[1000]", OF assms(2)] obtain e2 where
    s2: "detail_loop p 2 (Some e1) [1000] = detail_loop p 3 (Some e2) [1000, 2000]" by auto
  have r: "detail_loop p 3 (Some e2) [1000, 2000] = (Inr data, [1000, 2000], 3)"
    using assms(3) by (rule success_at(3))
  show ?thesis unfolding fetchPropertyDetails_def s1 s2 r by simp
qed

lemma attempts_bound: "snd (snd (fetchPropertyDetails p)) \<le> 3"
  using loop_bound[of 1 p None "[]"]
  by (auto simp: fetchPropertyDetails_def split: prod.splits sum.splits)

text \<open>
  C5. \<open>fetchPropertyDetails\<close> makes at most 3 requests. When all three attempts end in a
  transport failure or a status outside \<open>2xx\<close>, it waits 1000 ms and then 2000 ms, does not
  wait after the third, and returns \<open>null\<close> (here \<open>None\<close>) instead of throwing. An attempt
  answered with status 200 and a parsed body ends the loop with that body: at once, after
  one wait of 1000 ms, or after the waits of 1000 ms and 2000 ms. The wait doubles from 1000
  ms and never exceeds 5000 ms.
\<close>

theorem fetchPropertyDetails_retries:
  "snd (snd (fetchPropertyDetails p)) \<le> 3 \<and>
   (retryable (p 1) \<and> retryable (p 2) \<and> retryable (p 3)
      \<longrightarrow> fetchPropertyDetails p = (None, [1000, 2000], 3)) \<and>
   (p 1 = DetailResponse 200 (Some data)
      \<longrightarrow> fetchPropertyDetails p = (Some data, [], 1)) \<and>
   (retryable (p 1) \<and> p 2 = DetailResponse 200 (Some data)
      \<longrightarrow> fetchPropertyDetails p = (Some data, [1000], 2)) \<and>
   (retryable (p 1) \<and> retryable (p 2) \<and> p 3 = DetailResponse 200 (Some data)
      \<longrightarrow> fetchPropertyDetails p = (Some data, [1000, 2000], 3)) \<and>
   backoffMs 1 = 1000 \<and> backoffMs 2 = 2000 \<and> backoffMs (Suc n) = min (1000 * 2 ^ n) 5000 \<and>
   backoffMs n \<le> 5000"
  using attempts_bound[of p] all_attempts_fail[of p] first_attempt_ok[of p data]
        second_attempt_ok[of p data] third_attempt_ok[of p data]
  by (simp add: backoffMs_def)

theorem fetchPropertyDetails_retries_witness:
  "retryable (always_503 1) \<and> retryable (always_503 2) \<and> retryable (always_503 3) \<and>
   fetchPropertyDetails always_503 = (None, [1000, 2000], 3) \<and>
   retryable (third_time 1) \<and> retryable (third_time 2) \<and>
   third_time 3 = DetailResponse 200 (Some ''detail'') \<and>
   fetchPropertyDetails third_time = (Some ''detail'', [1000, 2000], 3)"
proof -
  have a: "retryable (always_503 1) \<and> retryable (always_503 2) \<and> retryable (always_503 3)"
    by (simp add: retryable_def always_503_def res_ok_def)
  have b: "retryable (third_time 1) \<and> retryable (third_time 2) \<and>
           third_time 3 = DetailResponse 200 (Some ''detail'')"
    by (simp add: retryable_def third_time_def res_ok_def)
  from a fetchPropertyDetails_retries[of always_503]
  have c: "fetchPropertyDetails always_503 = (None, [1000, 2000], 3)" by blast
  from b fetchPropertyDetails_retries[of third_time "''detail''"]
  have d: "fetchPropertyDetails third_time = (Some ''detail'', [1000, 2000], 3)" by blast
  from a b c d show ?thesis by blast
qed

section \<open>Properties of the preference store\<close>












section \<open>Properties of the handler\<close>

text \<open>
  C7 (as amended). While results are showing and the message does not ask for more: a
  message that matches the narrow pattern clears \<open>showingListingResults\<close> and sets
  \<open>awaitingPropertyCriteria\<close>; a message that matches the save pattern and not the narrow
  pattern saves the last criteria and leaves the state as it is. The three patterns are
  tried in the order show-more, narrow, save.
\<close>

theorem handler_showing_narrow_save:
  assumes "showingListingResults st" and "\<not> rx_test showMorePattern (trim message_text)"
  shows
    "(rx_test narrowPattern (trim message_text) \<longrightarrow>
        handler rt message_text userId st d =
          (st\<lparr>showingListingResults := False, awaitingPropertyCriteria := True\<rparr>, d,
           RefinePrompt, [])) \<and>
     (rx_test savePattern (trim message_text) \<and> \<not> rx_test narrowPattern (trim message_text) \<longrightarrow>
        handler rt message_text userId st d =
          (st, saveSearchPreferences rt userId (last_or_empty st) d,
           PreferencesSaved (last_or_empty st), []))"
  using assms by (simp add: handler_def Let_def)

theorem handler_showing_narrow_save_witness:
  "showingListingResults browsing \<and>
   \<not> rx_test showMorePattern (trim ''save this search'') \<and>
   rx_test savePattern (trim ''save this search'') \<and>
   \<not> rx_test narrowPattern (trim ''save this search'') \<and>
   handler runtime_up ''save this search'' ''u1'' browsing no_tables =
     (browsing, saveSearchPreferences runtime_up ''u1'' first_search no_tables,
      PreferencesSaved first_search, []) \<and>
   \<not> rx_test showMorePattern (trim ''narrow it down'') \<and>
   rx_test narrowPattern (trim ''narrow it down'') \<and>
   handler runtime_up ''narrow it down'' ''u1'' browsing no_tables =
     (browsing\<lparr>showingListingResults := False, awaitingPropertyCriteria := True\<rparr>, no_tables,
      RefinePrompt, [])"
proof -
  have s: "showingListingResults browsing" by (simp add: browsing_def)
  have l: "last_or_empty browsing = first_search" by (simp add: last_or_empty_def browsing_def)
  have a1: "\<not> rx_test showMorePattern (trim ''save this search'')" by code_simp
  have a2: "rx_test savePattern (trim ''save this search'')" by code_simp
  have a3: "\<not> rx_test narrowPattern (trim ''save this search'')" by code_simp
  have b1: "\<not> rx_test showMorePattern (trim ''narrow it down'')" by code_simp
  have b2: "rx_test narrowPattern (trim ''narrow it down'')" by code_simp
  from handler_showing_narrow_save[OF s a1, of runtime_up "''u1''" no_tables] a2 a3 l
  have a: "handler runtime_up ''save this search'' ''u1'' browsing no_tables =
     (browsing, saveSearchPreferences runtime_up ''u1'' first_search no_tables,
      PreferencesSaved first_search, [])"
    by simp
  from handler_showing_narrow_save[OF s b1, of runtime_up "''u1''" no_tables] b2
  have b: "handler runtime_up ''narrow it down'' ''u1'' browsing no_tables =
     (browsing\<lparr>showingListingResults := False, awaitingPropertyCriteria := True\<rparr>, no_tables,
      RefinePrompt, [])"
    by simp
  from s a1 a2 a3 a b1 b2 b show ?thesis by blast
qed

text \<open>
  C7 as stated fails: a message can match the save pattern and the narrow pattern, and
  then the narrow branch runs, the flags change and nothing is saved; a message can match the
  narrow pattern and the show-more pattern, and then the state stays as it is.
\<close>

theorem save_message_counterexample:
  "showingListingResults browsing \<and>
   rx_test savePattern (trim ''save this specific search'') \<and>
   \<not> showingListingResults
        (fst (handler runtime_up ''save this specific search'' ''u1'' browsing no_tables)) \<and>
   awaitingPropertyCriteria
        (fst (handler runtime_up ''save this specific search'' ''u1'' browsing no_tables)) \<and>
   fst (snd (handler runtime_up ''save this specific search'' ''u1'' browsing no_tables)) =
     no_tables \<and>
   saveSearchPreferences runtime_up ''u1'' first_search no_tables \<noteq> no_tables \<and>
   rx_test narrowPattern (trim ''show more specific ones'') \<and>
   showingListingResults
        (fst (handler runtime_up ''show more specific ones'' ''u1'' browsing no_tables)) \<and>
   \<not> awaitingPropertyCriteria
        (fst (handler runtime_up ''show more specific ones'' ''u1'' browsing no_tables))"
proof -
  have c1: "showingListingResults browsing" by (simp add: browsing_def)
  have c2: "rx_test savePattern (trim ''save this specific search'')" by code_simp
  have c3: "handler runtime_up ''save this specific search'' ''u1'' browsing no_tables =
     (browsing\<lparr>showingListingResults := False, awaitingPropertyCriteria := True\<rparr>, no_tables,
      RefinePrompt, [])"
    by code_simp
  have c4: "preferences (saveSearchPreferences runtime_up ''u1'' first_search no_tables) \<noteq>
            preferences no_tables"
    by code_simp
  have c5: "rx_test narrowPattern (trim ''show more specific ones'')" by code_simp
  have c6: "fst (handler runtime_up ''show more specific ones'' ''u1'' browsing no_tables) = browsing"
    by code_simp
  from c4 have c4': "saveSearchPreferences runtime_up ''u1'' first_search no_tables \<noteq> no_tables"
    by auto
  have d1: "\<not> showingListingResults
        (fst (handler runtime_up ''save this specific search'' ''u1'' browsing no_tables))"
    unfolding c3 by simp
  have d2: "awaitingPropertyCriteria
        (fst (handler runtime_up ''save this specific search'' ''u1'' browsing no_tables))"
    unfolding c3 by simp
  have d3: "fst (snd (handler runtime_up ''save this specific search'' ''u1'' browsing no_tables)) =
     no_tables"
    unfolding c3 by simp
  have d4: "showingListingResults
        (fst (handler runtime_up ''show more specific ones'' ''u1'' browsing no_tables))"
    unfolding c6 by (simp add: browsing_def)
  have d5: "\<not> awaitingPropertyCriteria
        (fst (handler runtime_up ''show more specific ones'' ''u1'' browsing no_tables))"
    unfolding c6 by (simp add: browsing_def)
  from c1 c2 c4' c5 d1 d2 d3 d4 d5 show ?thesis by blast
qed

text \<open>
  C3 (as amended). When the listing fetch throws, neither searching branch sets
  \<open>showingListingResults\<close>, and the tables stay as they are. In the branch that awaits
  criteria (transition 4) the reply is the apology and the state is the one reached before
  the fetch: \<open>awaitingPropertyCriteria\<close> cleared, \<open>lastSearchCriteria\<close> replaced. In the
  fallback branch (transition 6) the handler falls through to the default branch: after
  \<open>lastSearchCriteria\<close> was replaced, \<open>awaitingPropertyCriteria\<close> is set and the reply is the
  prompt for criteria.
\<close>

theorem handler_fetch_failure:
  assumes "fst (fetchAds (webhook rt) (extractSearchCriteria (trim message_text))) = Inl e"
  shows
    "(transition4 st (trim message_text) \<longrightarrow>
        handler rt message_text userId st d =
          (st\<lparr>awaitingPropertyCriteria := False,
              lastSearchCriteria := Some (extractSearchCriteria (trim message_text))\<rparr>,
           d, SearchIssue,
           snd (fetchAds (webhook rt) (extractSearchCriteria (trim message_text))))) \<and>
     (transition6 st (trim message_text) \<longrightarrow>
        handler rt message_text userId st d =
          (st\<lparr>lastSearchCriteria := Some (extractSearchCriteria (trim message_text)),
              awaitingPropertyCriteria := True\<rparr>,
           d, CriteriaPrompt,
           snd (fetchAds (webhook rt) (extractSearchCriteria (trim message_text))))) \<and>
     (transition4 st (trim message_text) \<or> transition6 st (trim message_text) \<longrightarrow>
        showingListingResults (fst (handler rt message_text userId st d)) =
          showingListingResults st)"
proof -
  obtain reqs where
    f: "fetchAds (webhook rt) (extractSearchCriteria (trim message_text)) = (Inl e, reqs)"
    using assms
    by (cases "fetchAds (webhook rt) (extractSearchCriteria (trim message_text))") auto
  have fs: "fetch_and_save rt userId (extractSearchCriteria (trim message_text)) d = (Inl e, reqs)"
    by (simp add: fetch_and_save_def f)
  have t4: "handler rt message_text userId st d =
          (st\<lparr>awaitingPropertyCriteria := False,
              lastSearchCriteria := Some (extractSearchCriteria (trim message_text))\<rparr>,
           d, SearchIssue, reqs)" if "transition4 st (trim message_text)"
    using that fs by (auto simp: handler_def Let_def transition4_def browsing_command_def)
  have t6: "handler rt message_text userId st d =
          (st\<lparr>lastSearchCriteria := Some (extractSearchCriteria (trim message_text)),
              awaitingPropertyCriteria := True\<rparr>,
           d, CriteriaPrompt, reqs)" if "transition6 st (trim message_text)"
    using that fs by (auto simp: handler_def Let_def transition6_def browsing_command_def)
  from t4 t6 show ?thesis by (auto simp: f)
qed

theorem handler_fetch_failure_witness:
  "fst (fetchAds (webhook runtime_down) (extractSearchCriteria (trim ''2 bed in JVC''))) =
     Inl FetchFailed \<and>
   transition4 asked_for_criteria (trim ''2 bed in JVC'') \<and>
   handler runtime_down ''2 bed in JVC'' ''u1'' asked_for_criteria no_tables =
     (asked_for_criteria\<lparr>awaitingPropertyCriteria := False,
        lastSearchCriteria := Some (extractSearchCriteria (trim ''2 bed in JVC''))\<rparr>,
      no_tables, SearchIssue,
      snd (fetchAds (webhook runtime_down) (extractSearchCriteria (trim ''2 bed in JVC'')))) \<and>
   transition6 initial_state (trim ''2 bed in JVC'') \<and>
   handler runtime_down ''2 bed in JVC'' ''u1'' initial_state no_tables =
     (initial_state\<lparr>lastSearchCriteria := Some (extractSearchCriteria (trim ''2 bed in JVC'')),
        awaitingPropertyCriteria := True\<rparr>,
      no_tables, CriteriaPrompt,
      snd (fetchAds (webhook runtime_down) (extractSearchCriteria (trim ''2 bed in JVC''))))"
proof -
  have h: "fst (fetchAds (webhook runtime_down) (extractSearchCriteria (trim ''2 bed in JVC''))) =
             Inl FetchFailed"
    by code_simp
  have t4: "transition4 asked_for_criteria (trim ''2 bed in JVC'')" by code_simp
  have t6: "transition6 initial_state (trim ''2 bed in JVC'')" by code_simp
  from handler_fetch_failure[OF h, of asked_for_criteria "''u1''" no_tables] t4
       handler_fetch_failure[OF h, of initial_state "''u1''" no_tables] t6 h
  show ?thesis by blast
qed

text \<open>
  C3 as stated fails in the fallback branch: the fetch throws, and afterwards the handler
  changes the state once more, setting \<open>awaitingPropertyCriteria\<close>.
\<close>

theorem fallback_fetch_failure_counterexample:
  "transition6 initial_state (trim ''2 bed in JVC'') \<and>
   fst (fetchAds (webhook runtime_down) (extractSearchCriteria (trim ''2 bed in JVC''))) =
     Inl FetchFailed \<and>
   \<not> awaitingPropertyCriteria initial_state \<and>
   awaitingPropertyCriteria
     (fst (handler runtime_down ''2 bed in JVC'' ''u1'' initial_state no_tables))"
proof -
  have a: "transition6 initial_state (trim ''2 bed in JVC'')" by code_simp
  have b: "fst (fetchAds (webhook runtime_down) (extractSearchCriteria (trim ''2 bed in JVC''))) =
             Inl FetchFailed"
    by code_simp
  have c: "\<not> awaitingPropertyCriteria initial_state" by (simp add: initial_state_def)
  have d: "awaitingPropertyCriteria
             (fst (handler runtime_down ''2 bed in JVC'' ''u1'' initial_state no_tables))"
    by code_simp
  from a b c d show ?thesis by blast
qed

text \<open>
  C1. The claim that the two flags are never both true fails on the code: from the initial
  state, a search that succeeds sets \<open>showingListingResults\<close>; a next message that matches
  none of the patterns and carries no criteria reaches the default branch, which sets
  \<open>awaitingPropertyCriteria\<close> and leaves \<open>showingListingResults\<close> set.
\<close>

theorem both_flags_true_after_default:
  "awaitingPropertyCriteria
     (fst (run_turns [(runtime_up, ''2 bed in JVC'', ''u1''), (runtime_up, ''thanks'', ''u1'')]
            (initial_state, no_tables))) \<and>
   showingListingResults
     (fst (run_turns [(runtime_up, ''2 bed in JVC'', ''u1''), (runtime_up, ''thanks'', ''u1'')]
            (initial_state, no_tables)))"
  by code_simp

section \<open>Properties of the price extraction\<close>

text \<open>
  C2. The claim that the suffix \<open>k\<close> scales by 1000 fails on the code: the test for the
  letter \<open>m\<close> looks at the whole matched phrase, and the lead phrase \<open>max\<close> has one, so
  \<open>max 500k\<close> is scaled by 1,000,000. The two examples of the claim and \<open>under 500k\<close> give
  what the claim says.
\<close>

theorem max_500k_scaled_by_million:
  "rx_match maxPricePattern ''max 500k'' = Some (''max 500k'', Some ''500'') \<and>
   maxPrice (extractSearchCriteria ''max 500k'') = Some 500000000 \<and>
   maxPrice (extractSearchCriteria ''under 500k'') = Some 500000 \<and>
   maxPrice (extractSearchCriteria ''under 1.5 million'') = Some 1500000 \<and>
   maxPrice (extractSearchCriteria ''under 1.5M'') = Some 1500000"
proof -
  have a: "rx_match maxPricePattern ''max 500k'' = Some (''max 500k'', Some ''500'')"
    by code_simp
  have b: "extract_price maxPricePattern ''max 500k'' = Some 500000000" by code_simp
  have c: "extract_price maxPricePattern ''under 500k'' = Some 500000" by code_simp
  have d: "extract_price maxPricePattern ''under 1.5 million'' = Some 1500000" by code_simp
  have e: "extract_price maxPricePattern ''under 1.5M'' = Some 1500000" by code_simp
  from a b c d e show ?thesis by (simp add: extractSearchCriteria_def)
qed

end
